theory Spec2Isabelle
  imports Complex_Main
begin

section \<open>Python values shared by the translator adapters\<close>

text \<open>
  Exceptions are values. Only the classes the adapters raise or catch are told apart;
  \<open>RuntimeSubclass n\<close> is a class named \<open>n\<close> that derives from RuntimeError
  (NotImplementedError, RecursionError, a library's or a user's own), \<open>OtherClass n\<close>
  is any class that does not. The second component is the message.
\<close>

datatype exc_class =
  ImportError | ValueError | RuntimeError | RuntimeSubclass string | OtherClass string

datatype py_exc = Exc exc_class string

text \<open>What \<^verbatim>\<open>except RuntimeError\<close> catches: the class and its subclasses.\<close>

fun isinstance_RuntimeError :: "py_exc \<Rightarrow> bool" where
  "isinstance_RuntimeError (Exc RuntimeError m) = True"
| "isinstance_RuntimeError (Exc (RuntimeSubclass n) m) = True"
| "isinstance_RuntimeError (Exc c m) = False"

text \<open>
  Truthiness of an optional string argument (\<^verbatim>\<open>if not key\<close>, \<^verbatim>\<open>x or default\<close>):
  \<^verbatim>\<open>None\<close> and the empty string are falsy.
\<close>

fun truthy :: "string option \<Rightarrow> bool" where
  "truthy None = False"
| "truthy (Some s) = (s \<noteq> [])"

fun or_default :: "string option \<Rightarrow> string \<Rightarrow> string" where
  "or_default None d = d"
| "or_default (Some s) d = (if s \<noteq> [] then s else d)"

text \<open>
  Python strings are modelled as \<open>string\<close>, one \<open>char\<close> per code point below 256.
  \<^verbatim>\<open>str.strip()\<close> removes the characters \<^verbatim>\<open>str.isspace\<close> accepts from both ends.
\<close>

definition NL :: char where
  "NL = CHR 0x0A"

definition isspace :: "char \<Rightarrow> bool" where
  "isspace c = (c \<in> set [CHR 0x09, CHR 0x0A, CHR 0x0B, CHR 0x0C, CHR 0x0D,
                          CHR 0x1C, CHR 0x1D, CHR 0x1E, CHR 0x1F, CHR 0x20,
                          CHR 0x85, CHR 0xA0])"

definition strip :: "string \<Rightarrow> string" where
  "strip s = rev (dropWhile isspace (rev (dropWhile isspace s)))"

text \<open>An options dictionary of the agent SDK (\<^verbatim>\<open>Dict[str, Any]\<close>).\<close>

datatype opt_val = OInt int | OStr string | OList "string list"

type_synonym sdk_opts = "string \<rightharpoonup> opt_val"

section \<open>ClaudeCodeTranslator: the instance\<close>

text \<open>
  The attributes \<^verbatim>\<open>__init__\<close> assigns. \<open>'f\<close> is the state of the fallback
  \<^verbatim>\<open>Claude\<close> instance (\<^verbatim>\<open>claude_translator.py\<close>); \<open>fallback\<close> is \<^verbatim>\<open>self._fallback\<close>,
  \<open>None\<close> in agentic mode. \<open>base_key\<close> is the key handed to \<^verbatim>\<open>Base.__init__\<close>.
\<close>

record 'f claude_code_translator =
  base_key :: string
  language :: string
  api_key :: "string option"
  api_base :: "string option"
  agentic :: bool
  agentic_options :: sdk_opts
  fallback :: "'f option"
  prompt_template :: string
  prompt_sys_msg :: string
  temperature :: real
  context_flag :: bool
  context_list :: "string list"
  context_translated_list :: "string list"
  context_paragraph_limit :: int
  default_agentic_options :: sdk_opts
  sdk_options :: sdk_opts

section \<open>The context buffer\<close>

text \<open>
  \<^verbatim>\<open>create_context_messages\<close>: the loop over
  \<^verbatim>\<open>zip(self.context_list, self.context_translated_list)\<close> appends one block to the
  accumulator \<^verbatim>\<open>context\<close> per pair.
\<close>

definition context_block :: "string \<Rightarrow> string \<Rightarrow> string" where
  "context_block orig transl =
     ''Original: '' @ orig @ [NL] @ ''Translation: '' @ transl @ [NL, NL]"

fun context_loop :: "string \<Rightarrow> (string \<times> string) list \<Rightarrow> string" where
  "context_loop context [] = context"
| "context_loop context ((orig, transl) # rest) =
     context_loop (context @ context_block orig transl) rest"

definition create_context_messages :: "('f, 'z) claude_code_translator_scheme \<Rightarrow> string" where
  "create_context_messages self =
     (if \<not> context_flag self \<or> context_list self = [] then []
      else context_loop (''Previous context:'' @ [NL])
             (zip (context_list self) (context_translated_list self)))"

text \<open>
  \<^verbatim>\<open>save_context\<close>: nothing when the flag is off; otherwise both lists get the new
  entry at the end and, when the source list is then longer than the limit, both lose
  their first entry (\<^verbatim>\<open>pop(0)\<close>, once). After the appends neither list is empty, so
  \<^verbatim>\<open>pop(0)\<close> cannot raise.
\<close>

definition save_context ::
  "('f, 'z) claude_code_translator_scheme \<Rightarrow> string \<Rightarrow> string \<Rightarrow> ('f, 'z) claude_code_translator_scheme"
where
  "save_context self text' t_text =
     (if \<not> context_flag self then self
      else
        let self1 = self\<lparr>context_list := context_list self @ [text']\<rparr>;
            self2 = self1\<lparr>context_translated_list := context_translated_list self1 @ [t_text]\<rparr>
        in if int (length (context_list self2)) > context_paragraph_limit self2
           then self2\<lparr>context_list := tl (context_list self2),
                      context_translated_list := tl (context_translated_list self2)\<rparr>
           else self2)"

text \<open>A sequence of \<^verbatim>\<open>save_context\<close> calls, in order.\<close>

fun save_all ::
  "('f, 'z) claude_code_translator_scheme \<Rightarrow> (string \<times> string) list \<Rightarrow> ('f, 'z) claude_code_translator_scheme"
where
  "save_all self [] = self"
| "save_all self ((text', t_text) # rest) = save_all (save_context self text' t_text) rest"

section \<open>ClaudeCodeTranslator: construction\<close>

text \<open>
  The arguments every adapter's \<^verbatim>\<open>__init__\<close> takes (\<^verbatim>\<open>key, language, api_base,
  prompt_template, prompt_sys_msg, temperature, context_flag, context_paragraph_limit,
  **kwargs\<close>), and the two more of \<^verbatim>\<open>ClaudeCodeTranslator.__init__\<close>.
\<close>

record translator_args =
  arg_key :: "string option"
  arg_language :: string
  arg_api_base :: "string option"
  arg_prompt_template :: "string option"
  arg_prompt_sys_msg :: "string option"
  arg_temperature :: real
  arg_context_flag :: bool
  arg_context_paragraph_limit :: int
  arg_kwargs :: "(string \<times> opt_val) list"

record claude_code_args = translator_args +
  arg_agentic :: bool
  arg_agentic_options :: "sdk_opts option"

definition sdk_missing_message :: string where
  "sdk_missing_message =
     ''Claude Code SDK is not installed. Please install it with:'' @ [NL] @
     ''pip install bbook-maker[agentic] or pip install claude-code-sdk''"

definition key_required_message :: string where
  "key_required_message =
     ''API key is required for regular Claude mode. '' @
     ''Use --claude_key or set BBM_CLAUDE_API_KEY environment variable.''"

definition default_prompt_template :: string where
  "default_prompt_template =
     ''Translate the following text into {language}. Provide ONLY the translation without any additional text or explanation:''
     @ [NL, NL] @ ''{text}''"

definition default_prompt_sys_msg :: string where
  "default_prompt_sys_msg =
     ''You are a professional translator. Always provide only the translation without any additional commentary or explanations.''"

definition default_options :: sdk_opts where
  "default_options =
     [''max_turns'' \<mapsto> OInt 1,
      ''allowed_tools'' \<mapsto> OList [''Read''],
      ''permission_mode'' \<mapsto> OStr ''default'']"

text \<open>
  The keyword arguments of the call \<^verbatim>\<open>Claude(key=key, language=language, ...)\<close>: the
  caller's own, without \<^verbatim>\<open>agentic\<close> and \<^verbatim>\<open>agentic_options\<close>.
\<close>

definition fallback_args :: "claude_code_args \<Rightarrow> translator_args" where
  "fallback_args a =
     \<lparr>arg_key = arg_key a, arg_language = arg_language a,
      arg_api_base = arg_api_base a,
      arg_prompt_template = arg_prompt_template a,
      arg_prompt_sys_msg = arg_prompt_sys_msg a,
      arg_temperature = arg_temperature a,
      arg_context_flag = arg_context_flag a,
      arg_context_paragraph_limit = arg_context_paragraph_limit a,
      arg_kwargs = arg_kwargs a\<rparr>"

text \<open>
  \<^verbatim>\<open>__init__\<close>. \<open>HAS_CLAUDE_CODE_SDK\<close> is the module flag the guarded import sets;
  \<open>Claude\<close> is the constructor of the fallback class (\<^verbatim>\<open>claude_translator.py\<close>, which may
  raise). \<^verbatim>\<open>Base.__init__\<close> (\<^verbatim>\<open>base_translator.py\<close>) receives
  \<^verbatim>\<open>key or "not-needed"\<close> and the language, keeps them and does not raise. The
  branches are in the source's order: the ImportError guard, the fallback branch with
  its key check, the attribute assignments.
\<close>

definition ClaudeCodeTranslator_init ::
  "bool \<Rightarrow> (translator_args \<Rightarrow> py_exc + 'f) \<Rightarrow> claude_code_args \<Rightarrow> py_exc + 'f claude_code_translator"
where
  "ClaudeCodeTranslator_init HAS_CLAUDE_CODE_SDK Claude a =
     (if arg_agentic a \<and> \<not> HAS_CLAUDE_CODE_SDK then Inl (Exc ImportError sdk_missing_message)
      else
        case (if \<not> arg_agentic a \<or> \<not> HAS_CLAUDE_CODE_SDK then
                (if \<not> truthy (arg_key a) then Inl (Exc ValueError key_required_message)
                 else
                   case Claude (fallback_args a) of
                     Inl e \<Rightarrow> Inl e
                   | Inr f \<Rightarrow> Inr (Some f))
              else Inr None) of
          Inl e \<Rightarrow> Inl e
        | Inr fb \<Rightarrow>
            let user_options = (case arg_agentic_options a of None \<Rightarrow> Map.empty | Some d \<Rightarrow> d);
                merged = default_options ++ user_options
            in Inr \<lparr>base_key = or_default (arg_key a) ''not-needed'',
                     language = arg_language a,
                     api_key = arg_key a,
                     api_base = arg_api_base a,
                     agentic = arg_agentic a,
                     agentic_options = user_options,
                     fallback = fb,
                     prompt_template = or_default (arg_prompt_template a) default_prompt_template,
                     prompt_sys_msg = or_default (arg_prompt_sys_msg a) default_prompt_sys_msg,
                     temperature = arg_temperature a,
                     context_flag = arg_context_flag a,
                     context_list = [],
                     context_translated_list = [],
                     context_paragraph_limit = arg_context_paragraph_limit a,
                     default_agentic_options = default_options,
                     sdk_options = (if merged ''model'' = None
                                    then merged(''model'' \<mapsto> OStr ''glm-4.5'') else merged)\<rparr>)"

section \<open>The sync/async bridge\<close>

text \<open>
  A coroutine is a computation on the state of the world \<open>'w\<close> that ends with a value or
  with an exception; one that never completes is outside the model. The flag
  \<open>running\<close> says whether an event loop is running in the calling thread.
  \<^verbatim>\<open>asyncio.get_running_loop()\<close> raises RuntimeError when none is;
  \<^verbatim>\<open>asyncio.run(coro)\<close> raises RuntimeError, without starting the coroutine, when one
  is, and otherwise runs the coroutine to its end on a fresh loop.
\<close>

type_synonym ('a, 'w) coroutine = "'w \<Rightarrow> (py_exc + 'a) \<times> 'w"

definition get_running_loop :: "bool \<Rightarrow> py_exc + unit" where
  "get_running_loop running =
     (if running then Inr () else Inl (Exc RuntimeError ''no running event loop''))"

definition asyncio_run :: "bool \<Rightarrow> ('a, 'w) coroutine \<Rightarrow> ('a, 'w) coroutine" where
  "asyncio_run running coro w =
     (if running
      then (Inl (Exc RuntimeError ''asyncio.run() cannot be called from a running event loop''), w)
      else coro w)"

text \<open>
  \<^verbatim>\<open>_sync_wrapper\<close>. The body of the \<^verbatim>\<open>try\<close> is \<^verbatim>\<open>get_running_loop()\<close> followed by
  \<^verbatim>\<open>pool.submit(asyncio.run, coro)\<close> and \<^verbatim>\<open>future.result()\<close>: the pool's worker thread
  has no running loop, and \<^verbatim>\<open>result()\<close> returns the value or re-raises the exception of
  the call. The handler \<^verbatim>\<open>except RuntimeError\<close> covers the whole body and calls
  \<^verbatim>\<open>asyncio.run(coro)\<close> in the calling thread.
\<close>

definition sync_wrapper :: "bool \<Rightarrow> ('a, 'w) coroutine \<Rightarrow> ('a, 'w) coroutine" where
  "sync_wrapper running coro w =
     (case (case get_running_loop running of
              Inl e \<Rightarrow> (Inl e, w)
            | Inr loop \<Rightarrow> asyncio_run False coro w) of
        (Inl e, w') \<Rightarrow>
          if isinstance_RuntimeError e then asyncio_run running coro w' else (Inl e, w')
      | (Inr v, w') \<Rightarrow> (Inr v, w'))"

section \<open>ClaudeCodeTranslator: translation\<close>

text \<open>
  The world the adapter acts on: the process environment (\<^verbatim>\<open>os.environ\<close>) and the
  prompts sent to the agent SDK's \<^verbatim>\<open>query\<close>, oldest first. Console output is not part
  of the model.
\<close>

record world =
  environ :: "string \<rightharpoonup> string"
  sdk_calls :: "string list"

text \<open>
  A streamed message has a \<^verbatim>\<open>content\<close> attribute or not; a content block has a
  \<^verbatim>\<open>text\<close> attribute or not.
\<close>

datatype block = TextBlock string | OtherBlock

datatype message = Message "block list" | NoContent

text \<open>
  What the adapter calls and does not define: the fallback instance's methods
  (\<open>Claude_translate_list\<close> is \<open>None\<close> when the class has no such attribute),
  \<^verbatim>\<open>str.format\<close> on the prompt template with \<^verbatim>\<open>text\<close> and \<^verbatim>\<open>language\<close>, the
  \<^verbatim>\<open>ClaudeCodeOptions\<close> constructor, and the SDK's \<^verbatim>\<open>query\<close>, whose streamed messages
  (or error) may depend on the prompt, the options and the world.
\<close>

record 'f externals =
  Claude_translate :: "'f \<Rightarrow> string \<Rightarrow> world \<Rightarrow> (py_exc + string) \<times> 'f \<times> world"
  Claude_translate_list ::
    "('f \<Rightarrow> string list \<Rightarrow> world \<Rightarrow> (py_exc + string list) \<times> 'f \<times> world) option"
  str_format :: "string \<Rightarrow> string \<Rightarrow> string \<Rightarrow> py_exc + string"
  ClaudeCodeOptions :: "sdk_opts \<Rightarrow> py_exc + sdk_opts"
  query :: "string \<Rightarrow> sdk_opts \<Rightarrow> world \<Rightarrow> py_exc + message list"

fun collect_blocks :: "string \<Rightarrow> block list \<Rightarrow> string" where
  "collect_blocks response_text [] = response_text"
| "collect_blocks response_text (TextBlock t # rest) = collect_blocks (response_text @ t) rest"
| "collect_blocks response_text (OtherBlock # rest) = collect_blocks response_text rest"

fun collect_messages :: "string \<Rightarrow> message list \<Rightarrow> string" where
  "collect_messages response_text [] = response_text"
| "collect_messages response_text (Message content # rest) =
     collect_messages (collect_blocks response_text content) rest"
| "collect_messages response_text (NoContent # rest) = collect_messages response_text rest"

text \<open>
  \<^verbatim>\<open>_agentic_translate\<close>, a coroutine: the prompt, the options object, the two
  environment defaults (\<^verbatim>\<open>if not os.getenv(...)\<close>), the query, the stripped text.
\<close>

definition agentic_translate ::
  "'f externals \<Rightarrow> 'f claude_code_translator \<Rightarrow> string \<Rightarrow> (string, world) coroutine"
where
  "agentic_translate E self text' w =
     (let context = create_context_messages self;
          full_prompt0 = (if prompt_sys_msg self \<noteq> []
                          then ''System: '' @ prompt_sys_msg self @ [NL, NL] else []);
          full_prompt1 = (if context \<noteq> [] then full_prompt0 @ context @ [NL] else full_prompt0)
      in case str_format E (prompt_template self) text' (language self) of
           Inl e \<Rightarrow> (Inl e, w)
         | Inr body \<Rightarrow>
             let full_prompt = full_prompt1 @ body in
             case ClaudeCodeOptions E (sdk_options self) of
               Inl e \<Rightarrow> (Inl e, w)
             | Inr options \<Rightarrow>
                 let w1 = (if \<not> truthy (environ w ''ANTHROPIC_BASE_URL'')
                           then w\<lparr>environ := (environ w)(''ANTHROPIC_BASE_URL'' \<mapsto>
                                                 ''https://open.bigmodel.cn/api/anthropic'')\<rparr>
                           else w);
                     w2 = (if \<not> truthy (environ w1 ''ANTHROPIC_MODEL'')
                           then w1\<lparr>environ := (environ w1)(''ANTHROPIC_MODEL'' \<mapsto> ''glm-4.5'')\<rparr>
                           else w1);
                     w3 = w2\<lparr>sdk_calls := sdk_calls w2 @ [full_prompt]\<rparr>
                 in case query E full_prompt options w2 of
                      Inl e \<Rightarrow> (Inl e, w3)
                    | Inr messages \<Rightarrow> (Inr (strip (collect_messages [] messages)), w3))"

text \<open>
  \<^verbatim>\<open>translate\<close>: \<^verbatim>\<open>rotate_key\<close> does nothing; a fallback instance (an object, truthy)
  takes the call; otherwise the coroutine runs through the bridge and the pair is saved
  when the context flag is set.
\<close>

definition translate ::
  "'f externals \<Rightarrow> bool \<Rightarrow> 'f claude_code_translator \<Rightarrow> string \<Rightarrow> world
     \<Rightarrow> (py_exc + string) \<times> 'f claude_code_translator \<times> world"
where
  "translate E running self text' w =
     (case fallback self of
        Some f \<Rightarrow>
          (case Claude_translate E f text' w of
             (r, f', w') \<Rightarrow> (r, self\<lparr>fallback := Some f'\<rparr>, w'))
      | None \<Rightarrow>
          (case sync_wrapper running (agentic_translate E self text') w of
             (Inl e, w') \<Rightarrow> (Inl e, self, w')
           | (Inr t_text, w') \<Rightarrow>
               (Inr t_text,
                (if context_flag self then save_context self text' t_text else self), w')))"

text \<open>
  \<^verbatim>\<open>translate_list\<close>: the fallback's own \<^verbatim>\<open>translate_list\<close> when there is a fallback
  that has one; otherwise the loop that appends to \<^verbatim>\<open>translated_list\<close>, which an
  exception of \<^verbatim>\<open>translate\<close> leaves.
\<close>

fun translate_list_loop ::
  "'f externals \<Rightarrow> bool \<Rightarrow> 'f claude_code_translator \<Rightarrow> string list \<Rightarrow> string list \<Rightarrow> world
     \<Rightarrow> (py_exc + string list) \<times> 'f claude_code_translator \<times> world"
where
  "translate_list_loop E running self [] translated_list w = (Inr translated_list, self, w)"
| "translate_list_loop E running self (text' # rest) translated_list w =
     (if strip text' \<noteq> [] then
        (case translate E running self text' w of
           (Inl e, self', w') \<Rightarrow> (Inl e, self', w')
         | (Inr t, self', w') \<Rightarrow>
             translate_list_loop E running self' rest (translated_list @ [t]) w')
      else translate_list_loop E running self rest (translated_list @ [[]]) w)"

definition translate_list ::
  "'f externals \<Rightarrow> bool \<Rightarrow> 'f claude_code_translator \<Rightarrow> string list \<Rightarrow> world
     \<Rightarrow> (py_exc + string list) \<times> 'f claude_code_translator \<times> world"
where
  "translate_list E running self text_list w =
     (case (fallback self, Claude_translate_list E) of
        (Some f, Some fallback_translate_list) \<Rightarrow>
          (case fallback_translate_list f text_list w of
             (r, f', w') \<Rightarrow> (r, self\<lparr>fallback := Some f'\<rparr>, w'))
      | _ \<Rightarrow> translate_list_loop E running self text_list [] w)"

text \<open>
  The contract of \<^verbatim>\<open>translate_list\<close> in the spec's words: each entry is translated
  independently, in order; an empty or whitespace-only entry gives the empty string
  and no call of \<^verbatim>\<open>translate\<close>. The theorems compare the source's loop with it.
\<close>

fun translate_each ::
  "'f externals \<Rightarrow> bool \<Rightarrow> 'f claude_code_translator \<Rightarrow> string list \<Rightarrow> world
     \<Rightarrow> (py_exc + string list) \<times> 'f claude_code_translator \<times> world"
where
  "translate_each E running self [] w = (Inr [], self, w)"
| "translate_each E running self (x # xs) w =
     (if strip x = [] then
        (case translate_each E running self xs w of
           (Inl e, self', w') \<Rightarrow> (Inl e, self', w')
         | (Inr ys, self', w') \<Rightarrow> (Inr ([] # ys), self', w'))
      else
        (case translate E running self x w of
           (Inl e, self', w') \<Rightarrow> (Inl e, self', w')
         | (Inr t, self', w') \<Rightarrow>
             (case translate_each E running self' xs w' of
                (Inl e, self'', w'') \<Rightarrow> (Inl e, self'', w'')
              | (Inr ys, self'', w'') \<Rightarrow> (Inr (t # ys), self'', w''))))"


section \<open>DeepSeekTranslator\<close>

text \<open>\<^verbatim>\<open>itertools.cycle\<close> over a list: the items and the position of the next one.\<close>

datatype 'a cycle = Cycle "'a list" nat

definition cycle_of :: "'a list \<Rightarrow> 'a cycle" where
  "cycle_of xs = Cycle xs 0"

fun cycle_next :: "'a cycle \<Rightarrow> ('a \<times> 'a cycle) option" where
  "cycle_next (Cycle xs i) =
     (if xs = [] then None else Some (xs ! i, Cycle xs (Suc i mod length xs)))"

fun cycle_take :: "nat \<Rightarrow> 'a cycle \<Rightarrow> 'a list" where
  "cycle_take 0 c = []"
| "cycle_take (Suc n) c =
     (case cycle_next c of None \<Rightarrow> [] | Some (x, c') \<Rightarrow> x # cycle_take n c')"

definition DEFAULT_API_BASE :: string where
  "DEFAULT_API_BASE = ''https://api.deepseek.com''"

definition DEFAULT_MODEL_LIST :: "string list" where
  "DEFAULT_MODEL_LIST = [''deepseek-chat'']"

text \<open>
  The instance: \<open>chatgpt\<close> is what \<^verbatim>\<open>ChatGPTAPI.__init__\<close> sets up, \<open>model_list\<close> the
  attribute \<^verbatim>\<open>self.model_list\<close>.
\<close>

record 'p deepseek_translator =
  chatgpt :: 'p
  model_list :: "string cycle"

text \<open>
  \<^verbatim>\<open>__init__\<close>: the arguments handed to \<^verbatim>\<open>super().__init__\<close> are the caller's with
  \<^verbatim>\<open>api_base or self.DEFAULT_API_BASE\<close>; \<open>ChatGPTAPI_init\<close> is the parent's constructor
  (\<^verbatim>\<open>chatgptapi_translator.py\<close>), which may raise.
\<close>

definition parent_args :: "translator_args \<Rightarrow> translator_args" where
  "parent_args a = a\<lparr>arg_api_base := Some (or_default (arg_api_base a) DEFAULT_API_BASE)\<rparr>"

definition DeepSeekTranslator_init ::
  "(translator_args \<Rightarrow> py_exc + 'p) \<Rightarrow> translator_args \<Rightarrow> py_exc + 'p deepseek_translator"
where
  "DeepSeekTranslator_init ChatGPTAPI_init a =
     (case ChatGPTAPI_init (parent_args a) of
        Inl e \<Rightarrow> Inl e
      | Inr p \<Rightarrow> Inr \<lparr>chatgpt = p, model_list = cycle_of DEFAULT_MODEL_LIST\<rparr>)"

text \<open>
  \<^verbatim>\<open>set_model_list\<close>: a falsy argument (\<^verbatim>\<open>None\<close> or an empty list) becomes the default
  list, and the parent's method \<open>super_set_model_list\<close> gets the list.
\<close>

definition set_model_list ::
  "(string list \<Rightarrow> 'd \<Rightarrow> 'r) \<Rightarrow> string list option \<Rightarrow> 'd \<Rightarrow> 'r"
where
  "set_model_list super_set_model_list model_list' self =
     (let model_list'' = (case model_list' of
                            None \<Rightarrow> DEFAULT_MODEL_LIST
                          | Some ml \<Rightarrow> if ml = [] then DEFAULT_MODEL_LIST else ml)
      in super_set_model_list model_list'' self)"

text \<open>
  Modelled from the spec: \<^verbatim>\<open>ChatGPTAPI.set_model_list\<close>, the parent's method
  (\<^verbatim>\<open>chatgptapi_translator.py\<close> is not among the sources). The spec gives the
  OpenAI-compatible adapter "a cyclable list of model identifiers (round-robin across
  calls, or fixed if only one)" and says "supplying a custom model list overrides the
  default cycle": the method installs the cycle over the list it is given.
\<close>

definition ChatGPTAPI_set_model_list ::
  "string list \<Rightarrow> 'p deepseek_translator \<Rightarrow> 'p deepseek_translator"
where
  "ChatGPTAPI_set_model_list ml self = self\<lparr>model_list := cycle_of ml\<rparr>"

text \<open>The retained pairs of the context buffer, oldest first.\<close>

definition pairs :: "('f, 'z) claude_code_translator_scheme \<Rightarrow> (string \<times> string) list" where
  "pairs self = zip (context_list self) (context_translated_list self)"

section \<open>Test instances\<close>

text \<open>
  Concrete arguments, collaborators and instances on which the theorems below are
  exercised: a constructor call with a key and one without, an agentic instance with
  a context window of two paragraphs, a fallback that tags its input, an SDK that
  streams one padded text block.
\<close>

definition keyed_args :: claude_code_args where
  "keyed_args =
     \<lparr>arg_key = Some ''sk-test'', arg_language = ''French'', arg_api_base = None,
      arg_prompt_template = None, arg_prompt_sys_msg = None, arg_temperature = 1,
      arg_context_flag = True, arg_context_paragraph_limit = 2, arg_kwargs = [],
      arg_agentic = False, arg_agentic_options = None\<rparr>"

definition agentic_instance :: "translator_args claude_code_translator" where
  "agentic_instance =
     \<lparr>base_key = ''not-needed'', language = ''French'', api_key = None, api_base = None,
      agentic = True, agentic_options = Map.empty, fallback = None,
      prompt_template = default_prompt_template, prompt_sys_msg = default_prompt_sys_msg,
      temperature = 1, context_flag = True, context_list = [],
      context_translated_list = [], context_paragraph_limit = 2,
      default_agentic_options = default_options,
      sdk_options = default_options(''model'' \<mapsto> OStr ''glm-4.5'')\<rparr>"

definition tagging_translate ::
  "translator_args \<Rightarrow> string \<Rightarrow> world \<Rightarrow> (py_exc + string) \<times> translator_args \<times> world"
where
  "tagging_translate f t w = (Inr (''FR:'' @ t), f, w)"

definition padded_query :: "string \<Rightarrow> sdk_opts \<Rightarrow> world \<Rightarrow> py_exc + message list" where
  "padded_query p opts w = Inr [Message [TextBlock '' Bonjour '', OtherBlock], NoContent]"

definition plain_format :: "string \<Rightarrow> string \<Rightarrow> string \<Rightarrow> py_exc + string" where
  "plain_format template t lang = Inr (lang @ '': '' @ t)"

definition test_externals :: "translator_args externals" where
  "test_externals =
     \<lparr>Claude_translate = tagging_translate, Claude_translate_list = None,
      str_format = plain_format, ClaudeCodeOptions = Inr, query = padded_query\<rparr>"

definition empty_world :: world where
  "empty_world = \<lparr>environ = Map.empty, sdk_calls = []\<rparr>"

definition failing_coro :: "(string, world) coroutine" where
  "failing_coro w = (Inl (Exc RuntimeError ''boom''), w)"

definition done_coro :: "(string, world) coroutine" where
  "done_coro w = (Inr ''ok'', w)"

definition deepseek_args :: translator_args where
  "deepseek_args =
     \<lparr>arg_key = Some ''sk-test'', arg_language = ''French'', arg_api_base = None,
      arg_prompt_template = None, arg_prompt_sys_msg = None, arg_temperature = 1,
      arg_context_flag = False, arg_context_paragraph_limit = 0, arg_kwargs = []\<rparr>"

section \<open>Properties\<close>


text \<open>
  A constructed instance starts with an empty context buffer and the caller's flag and
  limit; the agentic test instance is the one the constructor builds.
\<close>

lemma init_context_empty:
  "ClaudeCodeTranslator_init has_sdk Claude a = Inr self \<Longrightarrow>
   context_list self = [] \<and> context_translated_list self = []
   \<and> context_paragraph_limit self = arg_context_paragraph_limit a
   \<and> context_flag self = arg_context_flag a"
  by (auto simp: ClaudeCodeTranslator_init_def Let_def split: if_splits sum.splits)

lemma agentic_instance_constructed:
  "ClaudeCodeTranslator_init True Inr (keyed_args\<lparr>arg_agentic := True, arg_key := None\<rparr>)
     = Inr agentic_instance"
  by (simp add: ClaudeCodeTranslator_init_def Let_def keyed_args_def agentic_instance_def
        default_options_def)

lemma context_loop_concat:
  "context_loop acc ps = acc @ concat (map (\<lambda>(orig, transl). context_block orig transl) ps)"
  by (induction acc ps rule: context_loop.induct) simp_all

lemma save_context_fields:
  "context_flag (save_context self a b) = context_flag self"
  "context_paragraph_limit (save_context self a b) = context_paragraph_limit self"
  by (simp_all add: save_context_def Let_def)

lemma save_all_fields:
  "context_flag (save_all self ps) = context_flag self"
  "context_paragraph_limit (save_all self ps) = context_paragraph_limit self"
  by (induction self ps rule: save_all.induct) (simp_all add: save_context_fields)

lemma save_context_disabled: "\<not> context_flag self \<Longrightarrow> save_context self a b = self"
  by (simp add: save_context_def)

lemma save_all_disabled: "\<not> context_flag self \<Longrightarrow> save_all self ps = self"
  by (induction self ps rule: save_all.induct) (simp_all add: save_context_disabled)

lemma save_context_length:
  "length (context_list self) = length (context_translated_list self) \<Longrightarrow>
   length (context_list (save_context self a b)) = length (context_translated_list (save_context self a b))"
  by (simp add: save_context_def Let_def)

lemma save_context_bound:
  "0 \<le> context_paragraph_limit self \<Longrightarrow>
   int (length (context_list self)) \<le> context_paragraph_limit self \<Longrightarrow>
   int (length (context_list (save_context self a b))) \<le> context_paragraph_limit self"
  by (simp add: save_context_def Let_def)

lemma drop_window_step:
  "drop (length (drop (length Y - n) Y) + length rest - n) (drop (length Y - n) Y @ rest)
     = drop (length Y + length rest - n) (Y @ rest)"
proof -
  let ?d = "length Y - n"
  have "drop ?d Y @ rest = drop ?d (Y @ rest)" by simp
  moreover have "length (drop ?d Y) + length rest - n + ?d = length Y + length rest - n"
    by (cases "length Y \<le> n") simp_all
  ultimately show ?thesis by (simp only: drop_drop)
qed

lemma zip_tl: "zip (tl xs) (tl ys) = tl (zip xs ys)"
  by (cases xs; cases ys) simp_all

lemma save_context_pairs:
  assumes "context_flag self"
    and "length (context_list self) = length (context_translated_list self)"
    and "int (length (context_list self)) \<le> context_paragraph_limit self"
  shows "pairs (save_context self a b) =
           drop (length (pairs self @ [(a, b)]) - nat (context_paragraph_limit self)) (pairs self @ [(a, b)])"
proof (cases "int (length (context_list self)) + 1 > context_paragraph_limit self")
  case True
  with assms(3) have eq: "nat (context_paragraph_limit self) = length (context_list self)" by simp
  have d: "length (pairs self @ [(a, b)]) - nat (context_paragraph_limit self) = Suc 0"
    using assms(2) by (simp add: eq pairs_def)
  have "pairs (save_context self a b) = tl (pairs self @ [(a, b)])"
    using True assms(1,2) by (simp add: save_context_def Let_def pairs_def zip_tl)
  then show ?thesis unfolding d by (simp only: drop_Suc drop_0)
next
  case False
  then have d: "length (pairs self @ [(a, b)]) - nat (context_paragraph_limit self) = 0"
    using assms(2) by (simp add: pairs_def)
  have "pairs (save_context self a b) = pairs self @ [(a, b)]"
    using False assms(1,2) by (simp add: save_context_def Let_def pairs_def)
  then show ?thesis unfolding d by simp
qed

lemma save_all_pairs:
  assumes "context_flag self"
    and "length (context_list self) = length (context_translated_list self)"
    and "int (length (context_list self)) \<le> context_paragraph_limit self"
  shows "pairs (save_all self ps) =
           drop (length (pairs self) + length ps - nat (context_paragraph_limit self)) (pairs self @ ps)"
  using assms
proof (induction self ps rule: save_all.induct)
  case (1 self)
  then show ?case by (simp add: pairs_def)
next
  case (2 self a b rest)
  let ?s = "save_context self a b"
  let ?n = "nat (context_paragraph_limit self)"
  let ?Y = "pairs self @ [(a, b)]"
  have lim: "0 \<le> context_paragraph_limit self" using "2.prems"(3) by linarith
  have f: "context_flag ?s" using "2.prems"(1) by (simp add: save_context_fields)
  have l: "length (context_list ?s) = length (context_translated_list ?s)"
    using "2.prems"(2) by (rule save_context_length)
  have b: "int (length (context_list ?s)) \<le> context_paragraph_limit ?s"
    using save_context_bound[OF lim "2.prems"(3)] by (simp add: save_context_fields)
  have ih: "pairs (save_all ?s rest) = drop (length (pairs ?s) + length rest - ?n) (pairs ?s @ rest)"
    using "2.IH"[OF f l b] by (simp add: save_context_fields)
  have p: "pairs ?s = drop (length ?Y - ?n) ?Y"
    using "2.prems" by (rule save_context_pairs)
  have "pairs (save_all ?s rest) = drop (length ?Y + length rest - ?n) (?Y @ rest)"
    unfolding ih p by (rule drop_window_step)
  then show ?case by simp
qed

lemma zip_fst: "length xs = length ys \<Longrightarrow> map fst (zip xs ys) = xs"
  by simp
lemma zip_snd: "length xs = length ys \<Longrightarrow> map snd (zip xs ys) = ys"
  by simp

lemma save_all_length:
  "length (context_list self) = length (context_translated_list self) \<Longrightarrow>
   length (context_list (save_all self ps)) = length (context_translated_list (save_all self ps))"
  by (induction self ps rule: save_all.induct) (simp_all add: save_context_length)

lemma save_all_bound:
  "0 \<le> context_paragraph_limit self \<Longrightarrow>
   int (length (context_list self)) \<le> context_paragraph_limit self \<Longrightarrow>
   int (length (context_list (save_all self ps))) \<le> context_paragraph_limit self"
proof (induction self ps rule: save_all.induct)
  case (1 self)
  then show ?case by simp
next
  case (2 self a b rest)
  have "int (length (context_list (save_context self a b))) \<le> context_paragraph_limit self"
    using "2.prems" by (rule save_context_bound)
  with "2.IH" "2.prems"(1) show ?case by (simp add: save_context_fields)
qed

text \<open>
  Claim C5. On an instance whose context lists are empty, as the constructor leaves
  them, and whose limit \<open>N\<close> is not negative: after any sequence \<open>ps\<close> of
  \<^verbatim>\<open>save_context\<close> calls the two lists have the same length, at most \<open>N\<close>; on any
  instance with the context flag off a call changes nothing; and with the flag on,
  after more than \<open>N\<close> calls the lists hold exactly the last \<open>N\<close> sources and
  translations, in the order of the calls.
\<close>

theorem context_buffer_invariant:
  assumes "0 \<le> context_paragraph_limit self"
    and "context_list self = []" and "context_translated_list self = []"
  shows "length (context_list (save_all self ps)) = length (context_translated_list (save_all self ps))
       \<and> int (length (context_list (save_all self ps))) \<le> context_paragraph_limit self
       \<and> (\<not> context_flag other \<longrightarrow> save_context other a b = other)
       \<and> (context_flag self \<and> int (length ps) > context_paragraph_limit self \<longrightarrow>
            context_list (save_all self ps)
              = map fst (drop (length ps - nat (context_paragraph_limit self)) ps)
          \<and> context_translated_list (save_all self ps)
              = map snd (drop (length ps - nat (context_paragraph_limit self)) ps)
          \<and> int (length (context_list (save_all self ps))) = context_paragraph_limit self)"
proof -
  let ?s = "save_all self ps"
  have len: "length (context_list ?s) = length (context_translated_list ?s)"
    using assms(2,3) by (simp add: save_all_length)
  have bnd: "int (length (context_list ?s)) \<le> context_paragraph_limit self"
    using assms by (simp add: save_all_bound)
  have last: "context_list ?s = map fst (drop (length ps - nat (context_paragraph_limit self)) ps)
          \<and> context_translated_list ?s = map snd (drop (length ps - nat (context_paragraph_limit self)) ps)
          \<and> int (length (context_list ?s)) = context_paragraph_limit self"
    if on: "context_flag self" and more: "int (length ps) > context_paragraph_limit self"
  proof -
    have "pairs ?s = drop (length (pairs self) + length ps - nat (context_paragraph_limit self)) (pairs self @ ps)"
      using on assms by (intro save_all_pairs) simp_all
    then have z: "zip (context_list ?s) (context_translated_list ?s)
                = drop (length ps - nat (context_paragraph_limit self)) ps"
      using assms(2) by (simp add: pairs_def)
    have "context_list ?s = map fst (zip (context_list ?s) (context_translated_list ?s))"
      using len by simp
    moreover have "context_translated_list ?s = map snd (zip (context_list ?s) (context_translated_list ?s))"
      using len by simp
    ultimately have c: "context_list ?s = map fst (drop (length ps - nat (context_paragraph_limit self)) ps)"
        and t: "context_translated_list ?s = map snd (drop (length ps - nat (context_paragraph_limit self)) ps)"
      unfolding z by simp_all
    have "int (length (context_list ?s)) = context_paragraph_limit self"
      unfolding c using more assms(1) by simp
    with c t show ?thesis by simp
  qed
  from len bnd last save_context_disabled show ?thesis by blast
qed


text \<open>
  The theorem at a limit of two and three calls: the first pair is evicted.
\<close>

theorem context_buffer_invariant_witness:
  "context_list (save_all agentic_instance [(''a'', ''A''), (''b'', ''B''), (''c'', ''C'')]) = [''b'', ''c'']
   \<and> context_translated_list (save_all agentic_instance [(''a'', ''A''), (''b'', ''B''), (''c'', ''C'')])
       = [''B'', ''C'']"
proof -
  let ?ps = "[(''a'', ''A''), (''b'', ''B''), (''c'', ''C'')]"
  let ?N = "context_paragraph_limit agentic_instance"
  have lim: "0 \<le> ?N" by (simp add: agentic_instance_def)
  have e1: "context_list agentic_instance = []" by (simp add: agentic_instance_def)
  have e2: "context_translated_list agentic_instance = []" by (simp add: agentic_instance_def)
  have on: "context_flag agentic_instance \<and> int (length ?ps) > ?N"
    by (simp add: agentic_instance_def)
  have n: "length ?ps - nat ?N = Suc 0" by (simp add: agentic_instance_def)
  from context_buffer_invariant [OF lim e1 e2, of ?ps] on
  have "context_list (save_all agentic_instance ?ps) = map fst (drop (length ?ps - nat ?N) ?ps)
      \<and> context_translated_list (save_all agentic_instance ?ps) = map snd (drop (length ?ps - nat ?N) ?ps)"
    by blast
  then show ?thesis unfolding n by simp
qed

text \<open>
  Claim C6. \<^verbatim>\<open>create_context_messages\<close> returns the empty string when the context
  flag is off or the buffer is empty; otherwise the header line
  \<^verbatim>\<open>Previous context:\<close> followed, for each retained pair from the oldest to the
  newest, by the block \<^verbatim>\<open>Original: <source>\nTranslation: <translation>\n\n\<close>.
\<close>

theorem create_context_messages_format:
  "create_context_messages self =
     (if context_flag self \<and> context_list self \<noteq> []
      then ''Previous context:'' @ [NL] @
           concat (map (\<lambda>(orig, transl). ''Original: '' @ orig @ [NL] @ ''Translation: '' @ transl @ [NL, NL])
                       (zip (context_list self) (context_translated_list self)))
      else [])"
  by (simp add: create_context_messages_def context_loop_concat context_block_def)

text \<open>
  The theorem on a buffer of two pairs and on the empty buffer.
\<close>

theorem create_context_messages_format_witness:
  "create_context_messages (save_all agentic_instance [(''a'', ''A''), (''b'', ''B'')])
     = ''Previous context:'' @ [NL] @ ''Original: a'' @ [NL] @ ''Translation: A'' @ [NL, NL]
       @ ''Original: b'' @ [NL] @ ''Translation: B'' @ [NL, NL]
   \<and> create_context_messages agentic_instance = []"
  using create_context_messages_format [of "save_all agentic_instance [(''a'', ''A''), (''b'', ''B'')]"]
        create_context_messages_format [of agentic_instance]
  by (simp add: agentic_instance_def save_context_def)


text \<open>
  Claim C4. A coroutine that completes with the value \<open>v\<close> makes the bridge return
  \<open>v\<close> (and leave the world as the coroutine left it) both with no event loop running
  in the calling thread and with one running.
\<close>

theorem sync_wrapper_returns_value:
  "coro w = (Inr v, w') \<Longrightarrow>
   sync_wrapper False coro w = (Inr v, w') \<and> sync_wrapper True coro w = (Inr v, w')"
  by (simp add: sync_wrapper_def get_running_loop_def asyncio_run_def)

text \<open>
  The theorem on a coroutine that returns at once.
\<close>

theorem sync_wrapper_returns_value_witness:
  "sync_wrapper False done_coro empty_world = (Inr ''ok'', empty_world)
   \<and> sync_wrapper True done_coro empty_world = (Inr ''ok'', empty_world)"
  using sync_wrapper_returns_value [of done_coro empty_world "''ok''" empty_world]
  by (simp add: done_coro_def)

text \<open>
  Claim C3, where the code departs from it. With an event loop running, a coroutine
  that raises RuntimeError (or a subclass) has its exception caught by the handler
  meant for \<^verbatim>\<open>get_running_loop\<close>; the handler's \<^verbatim>\<open>asyncio.run\<close> then raises its own
  RuntimeError, and the caller sees that one, with another message (and, for a
  subclass, another class).
\<close>

theorem sync_wrapper_replaces_runtime_error:
  "isinstance_RuntimeError e \<Longrightarrow> coro w = (Inl e, w') \<Longrightarrow>
   sync_wrapper True coro w
     = (Inl (Exc RuntimeError ''asyncio.run() cannot be called from a running event loop''), w')"
  by (simp add: sync_wrapper_def get_running_loop_def asyncio_run_def)

text \<open>
  The theorem on a coroutine raising \<^verbatim>\<open>RuntimeError("boom")\<close>.
\<close>

theorem sync_wrapper_replaces_runtime_error_witness:
  "failing_coro empty_world = (Inl (Exc RuntimeError ''boom''), empty_world)
   \<and> sync_wrapper True failing_coro empty_world
     = (Inl (Exc RuntimeError ''asyncio.run() cannot be called from a running event loop''), empty_world)"
  using sync_wrapper_replaces_runtime_error [of "Exc RuntimeError ''boom''" failing_coro empty_world empty_world]
  by (simp add: failing_coro_def)

text \<open>
  In the other cases (no loop running, or an exception that is not a RuntimeError) the
  exception reaches the caller as raised.
\<close>

lemma sync_wrapper_propagates_error:
  "coro w = (Inl e, w') \<Longrightarrow> (\<not> running \<or> \<not> isinstance_RuntimeError e) \<Longrightarrow>
   sync_wrapper running coro w = (Inl e, w')"
  by (auto simp: sync_wrapper_def get_running_loop_def asyncio_run_def)




text \<open>
  Claim C2. With \<^verbatim>\<open>agentic=True\<close> and the SDK import unavailable, construction
  raises ImportError with the installation instructions, whatever the other arguments
  and whatever the fallback constructor would do: no instance is produced.
\<close>

theorem agentic_without_sdk_raises:
  "arg_agentic a \<Longrightarrow>
   ClaudeCodeTranslator_init False Claude a = Inl (Exc ImportError sdk_missing_message)"
  by (simp add: ClaudeCodeTranslator_init_def)

text \<open>
  The theorem on an agentic call without a key.
\<close>

theorem agentic_without_sdk_raises_witness:
  "ClaudeCodeTranslator_init False Inr (keyed_args\<lparr>arg_agentic := True, arg_key := None\<rparr>)
     = Inl (Exc ImportError sdk_missing_message)"
  using agentic_without_sdk_raises [of "keyed_args\<lparr>arg_agentic := True, arg_key := None\<rparr>" Inr]
  by simp







subsection \<open>Agentic translation\<close>

text \<open>
  In agentic mode the coroutine runs exactly once per \<^verbatim>\<open>translate\<close> call, the
  fallback stays absent, and a call that returns has queried the SDK once.
\<close>

lemma sync_wrapper_Inr:
  "sync_wrapper running coro w = (Inr v, w') \<Longrightarrow> coro w = (Inr v, w')"
  by (cases "coro w")
     (auto simp: sync_wrapper_def get_running_loop_def asyncio_run_def split: sum.splits if_splits)

lemma agentic_translate_calls:
  "agentic_translate E self t w = (Inr v, w') \<Longrightarrow>
   length (sdk_calls w') = Suc (length (sdk_calls w))"
  by (auto simp: agentic_translate_def Let_def split: sum.splits)


lemma translate_agentic_fallback:
  "fallback self = None \<Longrightarrow> translate E running self t w = (r, self', w') \<Longrightarrow>
   fallback self' = None"
  by (auto simp: translate_def save_context_def Let_def split: prod.splits sum.splits if_splits)

lemma translate_agentic_calls:
  "fallback self = None \<Longrightarrow> translate E running self t w = (Inr v, self', w') \<Longrightarrow>
   length (sdk_calls w') = Suc (length (sdk_calls w))"
  by (auto simp: translate_def split: prod.splits sum.splits
           dest!: sync_wrapper_Inr agentic_translate_calls)

text \<open>
  The loop with its accumulator computes \<open>translate_each\<close>.
\<close>

lemma translate_list_loop_each:
  "translate_list_loop E running self xs acc w =
     (case translate_each E running self xs w of
        (Inl e, self', w') \<Rightarrow> (Inl e, self', w')
      | (Inr ys, self', w') \<Rightarrow> (Inr (acc @ ys), self', w'))"
proof (induction xs arbitrary: self acc w)
  case Nil
  then show ?case by simp
next
  case (Cons x xs)
  show ?case
  proof (cases "strip x = []")
    case True
    then show ?thesis
      by (simp add: Cons.IH split: prod.splits sum.splits)
  next
    case False
    then show ?thesis
      by (simp add: Cons.IH split: prod.splits sum.splits)
  qed
qed

lemma translate_each_result:
  "fallback self = None \<Longrightarrow> translate_each E running self xs w = (Inr ys, self', w') \<Longrightarrow>
   length ys = length xs
   \<and> (\<forall>i<length xs. strip (xs ! i) = [] \<longrightarrow> ys ! i = [])
   \<and> length (sdk_calls w') = length (sdk_calls w) + length (filter (\<lambda>x. strip x \<noteq> []) xs)"
proof (induction xs arbitrary: self w ys)
  case Nil
  then show ?case by simp
next
  case (Cons x xs)
  show ?case
  proof (cases "strip x = []")
    case True
    with Cons.prems(2) obtain zs where
      rest: "translate_each E running self xs w = (Inr zs, self', w')" and ys: "ys = [] # zs"
      by (auto split: prod.splits sum.splits)
    from Cons.IH [OF Cons.prems(1) rest] True ys show ?thesis
      by (auto simp: nth_Cons split: nat.splits)
  next
    case False
    with Cons.prems(2) obtain t s1 w1 zs where
      step: "translate E running self x w = (Inr t, s1, w1)" and
      rest: "translate_each E running s1 xs w1 = (Inr zs, self', w')" and ys: "ys = t # zs"
      by (auto split: prod.splits sum.splits)
    have fb: "fallback s1 = None"
      using Cons.prems(1) step by (rule translate_agentic_fallback)
    have c: "length (sdk_calls w1) = Suc (length (sdk_calls w))"
      using Cons.prems(1) step by (rule translate_agentic_calls)
    from Cons.IH [OF fb rest] False ys c show ?thesis
      by (auto simp: nth_Cons split: nat.splits)
  qed
qed

lemma translate_each_blank:
  "\<forall>x\<in>set xs. strip x = [] \<Longrightarrow>
   translate_each E running self xs w = (Inr (map (\<lambda>x. []) xs), self, w)"
  by (induction xs) simp_all

text \<open>
  Claim C7. Without a fallback, \<^verbatim>\<open>translate_list([])\<close> returns \<^verbatim>\<open>[]\<close>;
  \<^verbatim>\<open>translate_list\<close> is \<open>translate_each\<close>: entry by entry, in order, a blank entry
  giving the empty string and a non-blank one the result of \<^verbatim>\<open>translate\<close> on it (an
  exception of \<^verbatim>\<open>translate\<close> ends the call); a returned list has the length of the
  input, the empty string at each blank entry, and the SDK was queried once per
  non-blank entry; a list of blank entries only returns the empty strings and leaves
  the instance and the world unchanged.
\<close>

theorem translate_list_agentic:
  assumes "fallback self = None"
  shows "translate_list E running self [] w = (Inr [], self, w)
       \<and> translate_list E running self xs w = translate_each E running self xs w
       \<and> (\<forall>ys self' w'. translate_list E running self xs w = (Inr ys, self', w') \<longrightarrow>
             length ys = length xs
           \<and> (\<forall>i<length xs. strip (xs ! i) = [] \<longrightarrow> ys ! i = [])
           \<and> length (sdk_calls w') = length (sdk_calls w) + length (filter (\<lambda>x. strip x \<noteq> []) xs))
       \<and> ((\<forall>x\<in>set xs. strip x = []) \<longrightarrow>
             translate_list E running self xs w = (Inr (map (\<lambda>x. []) xs), self, w))"
proof -
  have eq: "translate_list E running self zs w = translate_each E running self zs w" for zs
    using assms by (simp add: translate_list_def translate_list_loop_each split: prod.splits sum.splits)
  have nil: "translate_list E running self [] w = (Inr [], self, w)"
    unfolding eq by simp
  have res: "\<forall>ys self' w'. translate_list E running self xs w = (Inr ys, self', w') \<longrightarrow>
             length ys = length xs
           \<and> (\<forall>i<length xs. strip (xs ! i) = [] \<longrightarrow> ys ! i = [])
           \<and> length (sdk_calls w') = length (sdk_calls w) + length (filter (\<lambda>x. strip x \<noteq> []) xs)"
    unfolding eq using translate_each_result [OF assms] by blast
  have blank: "(\<forall>x\<in>set xs. strip x = []) \<longrightarrow>
             translate_list E running self xs w = (Inr (map (\<lambda>x. []) xs), self, w)"
    unfolding eq using translate_each_blank by blast
  from nil eq res blank show ?thesis by blast
qed


text \<open>
  \<^verbatim>\<open>strip\<close> on the strings of the test instances.
\<close>

lemma strip_hello: "strip ''Hello'' = ''Hello''" "strip '' Bonjour '' = ''Bonjour''"
  "strip ''  '' = []" "strip [] = []"
  by (simp_all add: strip_def isspace_def)

lemmas test_defs = agentic_translate_def Let_def test_externals_def plain_format_def
      padded_query_def agentic_instance_def create_context_messages_def
      default_prompt_sys_msg_def translate_def sync_wrapper_def get_running_loop_def
      asyncio_run_def empty_world_def save_context_def

text \<open>
  The theorem on a list of one text, one whitespace-only entry and one empty entry.
\<close>

theorem translate_list_agentic_witness:
  "fst (translate_list test_externals False agentic_instance [''Hello'', ''  '', []] empty_world)
     = Inr [''Bonjour'', [], []]
   \<and> length (sdk_calls (snd (snd (translate_list test_externals False agentic_instance
                                     [''Hello'', ''  '', []] empty_world)))) = 1"
proof -
  have fb: "fallback agentic_instance = None" by (simp add: agentic_instance_def)
  from translate_list_agentic [OF fb, of test_externals False empty_world "[''Hello'', ''  '', []]"]
  have eq: "translate_list test_externals False agentic_instance [''Hello'', ''  '', []] empty_world
          = translate_each test_externals False agentic_instance [''Hello'', ''  '', []] empty_world"
    by blast
  show ?thesis unfolding eq
    by (simp add: strip_hello test_defs)
qed






subsection \<open>DeepSeekTranslator\<close>

text \<open>
  What a cycle yields: the items round-robin.
\<close>

lemma cycle_take_nth:
  "xs \<noteq> [] \<Longrightarrow> i < length xs \<Longrightarrow>
   cycle_take n (Cycle xs i) = map (\<lambda>k. xs ! ((i + k) mod length xs)) [0..<n]"
proof (induction n arbitrary: i)
  case 0
  then show ?case by simp
next
  case (Suc n)
  have lt: "Suc i mod length xs < length xs" using Suc.prems(1) by simp
  have "cycle_take (Suc n) (Cycle xs i) = xs ! i # cycle_take n (Cycle xs (Suc i mod length xs))"
    using Suc.prems(1) by simp
  also have "\<dots> = xs ! i # map (\<lambda>k. xs ! ((Suc i mod length xs + k) mod length xs)) [0..<n]"
    using Suc.IH [OF Suc.prems(1) lt] by simp
  also have "\<dots> = xs ! ((i + 0) mod length xs) # map (\<lambda>k. xs ! ((i + Suc k) mod length xs)) [0..<n]"
    using Suc.prems(2) by (simp add: mod_add_left_eq)
  also have "\<dots> = map (\<lambda>k. xs ! ((i + k) mod length xs)) [0..<Suc n]"
    by (simp only: map_upt_Suc)
  finally show ?case .
qed

lemma cycle_take_of:
  "xs \<noteq> [] \<Longrightarrow> cycle_take n (cycle_of xs) = map (\<lambda>k. xs ! (k mod length xs)) [0..<n]"
  using cycle_take_nth [of xs 0 n] by (simp add: cycle_of_def)

lemma cycle_take_default:
  "cycle_take n (cycle_of DEFAULT_MODEL_LIST) = replicate n ''deepseek-chat''"
  by (simp add: cycle_take_of DEFAULT_MODEL_LIST_def map_replicate_const)

text \<open>
  Claim C9, amended. With \<^verbatim>\<open>api_base\<close> \<^verbatim>\<open>None\<close> or empty, the base URL handed
  to the parent constructor is \<^verbatim>\<open>https://api.deepseek.com\<close>; a non-empty
  \<^verbatim>\<open>api_base\<close> is handed on unchanged; construction succeeds exactly when the
  parent's does, and the model cycle then yields \<^verbatim>\<open>deepseek-chat\<close> only; a non-empty
  list given to \<^verbatim>\<open>set_model_list\<close> reaches the parent's method unchanged, which
  replaces the cycle by the cycle over that list.
\<close>

theorem deepseek_defaults:
  "(\<not> truthy (arg_api_base a) \<longrightarrow>
      arg_api_base (parent_args a) = Some ''https://api.deepseek.com'')
 \<and> (\<forall>u. arg_api_base a = Some u \<and> u \<noteq> [] \<longrightarrow> arg_api_base (parent_args a) = Some u)
 \<and> (\<forall>p. ChatGPTAPI_init (parent_args a) = Inr p \<longrightarrow>
        DeepSeekTranslator_init ChatGPTAPI_init a
          = Inr \<lparr>chatgpt = p, model_list = cycle_of [''deepseek-chat'']\<rparr>)
 \<and> (\<forall>d. DeepSeekTranslator_init ChatGPTAPI_init a = Inr d \<longrightarrow>
        (\<exists>p. ChatGPTAPI_init (parent_args a) = Inr p)
      \<and> cycle_take n (model_list d) = replicate n ''deepseek-chat'')
 \<and> (ml \<noteq> [] \<longrightarrow>
        set_model_list super_set_model_list (Some ml) self = super_set_model_list ml self
      \<and> set_model_list ChatGPTAPI_set_model_list (Some ml) d = d\<lparr>model_list := cycle_of ml\<rparr>
      \<and> cycle_take n (model_list (set_model_list ChatGPTAPI_set_model_list (Some ml) d))
          = map (\<lambda>k. ml ! (k mod length ml)) [0..<n])"
proof -
  have base: "\<not> truthy (arg_api_base a) \<longrightarrow>
      arg_api_base (parent_args a) = Some ''https://api.deepseek.com''"
    by (cases "arg_api_base a") (simp_all add: parent_args_def DEFAULT_API_BASE_def)
  have given: "\<forall>u. arg_api_base a = Some u \<and> u \<noteq> [] \<longrightarrow> arg_api_base (parent_args a) = Some u"
    by (simp add: parent_args_def)
  have ok: "\<forall>p. ChatGPTAPI_init (parent_args a) = Inr p \<longrightarrow>
        DeepSeekTranslator_init ChatGPTAPI_init a
          = Inr \<lparr>chatgpt = p, model_list = cycle_of [''deepseek-chat'']\<rparr>"
    by (simp add: DeepSeekTranslator_init_def DEFAULT_MODEL_LIST_def)
  have cyc: "\<forall>d. DeepSeekTranslator_init ChatGPTAPI_init a = Inr d \<longrightarrow>
        (\<exists>p. ChatGPTAPI_init (parent_args a) = Inr p)
      \<and> cycle_take n (model_list d) = replicate n ''deepseek-chat''"
    by (auto simp: DeepSeekTranslator_init_def cycle_take_default split: sum.splits)
  have custom: "ml \<noteq> [] \<longrightarrow>
        set_model_list super_set_model_list (Some ml) self = super_set_model_list ml self
      \<and> set_model_list ChatGPTAPI_set_model_list (Some ml) d = d\<lparr>model_list := cycle_of ml\<rparr>
      \<and> cycle_take n (model_list (set_model_list ChatGPTAPI_set_model_list (Some ml) d))
          = map (\<lambda>k. ml ! (k mod length ml)) [0..<n]"
    by (simp add: set_model_list_def ChatGPTAPI_set_model_list_def cycle_take_of)
  show ?thesis
    by (rule conjI [OF base conjI [OF given conjI [OF ok conjI [OF cyc custom]]]])
qed

text \<open>
  The theorem on a call without \<^verbatim>\<open>api_base\<close>, a call with one, and a list of two
  models.
\<close>

theorem deepseek_defaults_witness:
  "arg_api_base (parent_args deepseek_args) = Some ''https://api.deepseek.com''
 \<and> arg_api_base (parent_args (deepseek_args\<lparr>arg_api_base := Some ''http://localhost:8000''\<rparr>))
     = Some ''http://localhost:8000''
 \<and> DeepSeekTranslator_init Inr deepseek_args
     = Inr \<lparr>chatgpt = parent_args deepseek_args, model_list = cycle_of [''deepseek-chat'']\<rparr>
 \<and> cycle_take 3 (model_list (set_model_list ChatGPTAPI_set_model_list
       (Some [''deepseek-reasoner'', ''deepseek-chat''])
       \<lparr>chatgpt = parent_args deepseek_args, model_list = cycle_of [''deepseek-chat'']\<rparr>))
     = [''deepseek-reasoner'', ''deepseek-chat'', ''deepseek-reasoner'']"
proof -
  let ?d = "\<lparr>chatgpt = parent_args deepseek_args, model_list = cycle_of [''deepseek-chat'']\<rparr>"
  let ?ml = "[''deepseek-reasoner'', ''deepseek-chat'']"
  note T = deepseek_defaults [where a = deepseek_args and ChatGPTAPI_init = Inr
      and ml = ?ml and d = ?d and n = 3 and self = ?d
      and super_set_model_list = ChatGPTAPI_set_model_list]
  have ne: "?ml \<noteq> []" by simp
  note U = deepseek_defaults [where a = "deepseek_args\<lparr>arg_api_base := Some ''http://localhost:8000''\<rparr>"]
  have 1: "arg_api_base (parent_args deepseek_args) = Some ''https://api.deepseek.com''"
    using T [THEN conjunct1] by (simp add: deepseek_args_def)
  have 2: "arg_api_base (parent_args (deepseek_args\<lparr>arg_api_base := Some ''http://localhost:8000''\<rparr>))
     = Some ''http://localhost:8000''"
    using U [THEN conjunct2, THEN conjunct1] by simp
  have 3: "DeepSeekTranslator_init Inr deepseek_args = Inr ?d"
    using T [THEN conjunct2, THEN conjunct2, THEN conjunct1] by simp
  have "cycle_take 3 (model_list (set_model_list ChatGPTAPI_set_model_list (Some ?ml) ?d))
          = map (\<lambda>k. ?ml ! (k mod length ?ml)) [0..<3]"
    by (rule T [THEN conjunct2, THEN conjunct2, THEN conjunct2, THEN conjunct2,
                THEN mp, OF ne, THEN conjunct2, THEN conjunct2])
  also have "\<dots> = [''deepseek-reasoner'', ''deepseek-chat'', ''deepseek-reasoner'']"
    by (simp add: upt_rec numeral_3_eq_3)
  finally have 4: "cycle_take 3 (model_list (set_model_list ChatGPTAPI_set_model_list (Some ?ml) ?d))
          = [''deepseek-reasoner'', ''deepseek-chat'', ''deepseek-reasoner'']" .
  show ?thesis
    by (rule conjI [OF 1 conjI [OF 2 conjI [OF 3 4]]])
qed

text \<open>
  Claim C9 as stated fails on an \<^verbatim>\<open>api_base\<close> supplied as the empty string:
  \<^verbatim>\<open>api_base or self.DEFAULT_API_BASE\<close> replaces it by the default.
\<close>

theorem empty_api_base_replaced:
  "arg_api_base (deepseek_args\<lparr>arg_api_base := Some []\<rparr>) = Some []
 \<and> arg_api_base (parent_args (deepseek_args\<lparr>arg_api_base := Some []\<rparr>))
     = Some ''https://api.deepseek.com''"
  by (simp add: parent_args_def DEFAULT_API_BASE_def)

text \<open>
  Claim C10. \<^verbatim>\<open>set_model_list\<close> with \<^verbatim>\<open>None\<close> or an empty list hands the default
  list \<^verbatim>\<open>["deepseek-chat"]\<close> to the parent's method, whatever that method is; with
  the parent's method the cycle installed is the default one, never an empty one.
\<close>

theorem set_model_list_falsy:
  "set_model_list super_set_model_list None self
     = super_set_model_list [''deepseek-chat''] self
 \<and> set_model_list super_set_model_list (Some []) self
     = super_set_model_list [''deepseek-chat''] self
 \<and> set_model_list ChatGPTAPI_set_model_list None d = d\<lparr>model_list := cycle_of [''deepseek-chat'']\<rparr>
 \<and> set_model_list ChatGPTAPI_set_model_list (Some []) d
     = d\<lparr>model_list := cycle_of [''deepseek-chat'']\<rparr>
 \<and> cycle_take n (model_list (set_model_list ChatGPTAPI_set_model_list (Some []) d))
     = replicate n ''deepseek-chat''"
  using cycle_take_default [of n]
  by (simp add: set_model_list_def ChatGPTAPI_set_model_list_def DEFAULT_MODEL_LIST_def)


end
